theory Spec2Isabelle
  imports Main
begin

section \<open>Data model of \<^verbatim>\<open>cfg.py\<close>\<close>

text \<open>
  A symbol is a Python \<^verbatim>\<open>str\<close>, modelled as a \<^typ>\<open>string\<close> (a list of
  characters, each a code point below 256). A production is the pair
  \<^verbatim>\<open>(lhs, rhs)\<close> of type \<^verbatim>\<open>Tuple[str, List[str]]\<close>.
\<close>

type_synonym production = "string \<times> string list"

text \<open>
  The object built by \<^verbatim>\<open>CFG.__init__\<close>: the three constructor arguments and the
  derived attribute \<^verbatim>\<open>all_symbols\<close>.
\<close>

record cfg =
  terminal_symbols :: "string set"
  nonterminal_symbols :: "string set"
  productions :: "production list"
  all_symbols :: "string set"

text \<open>
  Every \<^verbatim>\<open>assert\<close> of the class raises \<^verbatim>\<open>AssertionError\<close>; the assertions differ
  in their message only, so the message is kept as a tag (with the production or the symbol
  the f-string prints). The other exceptions are the ones the interpreter and numpy raise
  in the methods modelled below.
\<close>

datatype assertion =
    SymbolsNotDisjoint
  | InvalidLhs production
  | InvalidRhs production
  | InvalidSymbol string
  | NotNonterminal string
  | BadStrategy
  | BadLength

datatype py_error =
    AssertionError assertion
  | UnboundLocalError
  | ValueError
  | TypeError

section \<open>Construction and validation\<close>

text \<open>The inner loop of \<^verbatim>\<open>validate\<close>: \<^verbatim>\<open>for symbol in production[1]\<close>.\<close>

fun validate_rhs :: "cfg \<Rightarrow> production \<Rightarrow> string list \<Rightarrow> py_error + unit" where
  "validate_rhs g p [] = Inr ()"
| "validate_rhs g p (s # ss) =
     (if s \<in> all_symbols g then validate_rhs g p ss
      else Inl (AssertionError (InvalidRhs p)))"

text \<open>The outer loop: \<^verbatim>\<open>for production in self.productions\<close>.\<close>

fun validate_productions :: "cfg \<Rightarrow> production list \<Rightarrow> py_error + unit" where
  "validate_productions g [] = Inr ()"
| "validate_productions g (p # ps) =
     (if fst p \<in> nonterminal_symbols g then
        (case validate_rhs g p (snd p) of
           Inl e \<Rightarrow> Inl e
         | Inr _ \<Rightarrow> validate_productions g ps)
      else Inl (AssertionError (InvalidLhs p)))"

text \<open>
  \<^verbatim>\<open>validate\<close>. The first assertion is \<^verbatim>\<open>len(t.intersection(n)) == 0\<close>; a Python set
  is finite, so its length is zero exactly when it is empty.
\<close>

definition validate :: "cfg \<Rightarrow> py_error + unit" where
  "validate g =
     (if terminal_symbols g \<inter> nonterminal_symbols g = {}
      then validate_productions g (productions g)
      else Inl (AssertionError SymbolsNotDisjoint))"

text \<open>\<^verbatim>\<open>__init__\<close>: store the arguments, derive \<^verbatim>\<open>all_symbols\<close>, validate.\<close>

definition CFG_init :: "string set \<Rightarrow> string set \<Rightarrow> production list \<Rightarrow> py_error + cfg" where
  "CFG_init ts ns ps =
     (let g = \<lparr>terminal_symbols = ts, nonterminal_symbols = ns, productions = ps,
               all_symbols = ts \<union> ns\<rparr>
      in case validate g of Inl e \<Rightarrow> Inl e | Inr _ \<Rightarrow> Inr g)"

section \<open>Production lookup\<close>

text \<open>
  \<^verbatim>\<open>get_productions_for_symbol\<close>: the assertion, then the list comprehension
  \<^verbatim>\<open>[production for production in self.productions if production[0] == symbol]\<close>.
\<close>

fun select_productions :: "string \<Rightarrow> production list \<Rightarrow> production list" where
  "select_productions symbol [] = []"
| "select_productions symbol (p # ps) =
     (if fst p = symbol then p # select_productions symbol ps
      else select_productions symbol ps)"

definition get_productions_for_symbol :: "cfg \<Rightarrow> string \<Rightarrow> py_error + production list" where
  "get_productions_for_symbol g symbol =
     (if symbol \<in> all_symbols g then Inr (select_productions symbol (productions g))
      else Inl (AssertionError (InvalidSymbol symbol)))"

section \<open>Random generation\<close>

text \<open>
  The process-wide numpy generator is modelled by an oracle \<open>rng\<close>: the \<open>k\<close>-th call of
  \<^verbatim>\<open>np.random.choice\<close> made by one call of \<^verbatim>\<open>generate\<close> draws the number \<open>rng k\<close>,
  which selects the element at index \<open>rng k mod length xs\<close>. Every index is selected by
  some oracle, and a statement for all oracles is a statement for all random choices.
  \<^verbatim>\<open>np.random.choice\<close> raises \<^verbatim>\<open>ValueError\<close> on an empty sequence. The result carries
  the number of draws made so far.

  \<^verbatim>\<open>np.random.choice\<close> first turns its argument into an array. For the list of
  indices the element drawn is the index itself (\<open>np_random_choice\<close>). A list of strings
  becomes an array of fixed-width strings padded with NUL characters, and an element read
  from such an array has lost its trailing NUL characters (\<open>np_str\<close>): the value drawn
  from \<^verbatim>\<open>possible_outputs\<close> is the symbol without them (\<open>np_random_choice_str\<close>).
\<close>

definition np_random_choice :: "(nat \<Rightarrow> nat) \<Rightarrow> nat \<Rightarrow> nat list \<Rightarrow> py_error + (nat \<times> nat)" where
  "np_random_choice rng k xs =
     (if xs = [] then Inl ValueError
      else Inr (xs ! (rng k mod length xs), Suc k))"

definition np_str :: "string \<Rightarrow> string" where
  "np_str s = rev (dropWhile (\<lambda>c. c = CHR 0x00) (rev s))"

definition np_random_choice_str :: "(nat \<Rightarrow> nat) \<Rightarrow> nat \<Rightarrow> string list \<Rightarrow> py_error + (string \<times> nat)" where
  "np_random_choice_str rng k xs =
     (if xs = [] then Inl ValueError
      else Inr (np_str (xs ! (rng k mod length xs)), Suc k))"

text \<open>
  \<^verbatim>\<open>sep.join(xs)\<close> on a list of strings, and the iteration of a \<^verbatim>\<open>str\<close>, which
  yields its characters as one-character strings. \<^verbatim>\<open>" ".join(s)\<close> for a \<^verbatim>\<open>str\<close>
  \<open>s\<close> is then \<open>py_join '' '' (str_iter s)\<close>.
\<close>

fun py_join :: "string \<Rightarrow> string list \<Rightarrow> string" where
  "py_join sep [] = []"
| "py_join sep [x] = x"
| "py_join sep (x # y # ys) = x @ sep @ py_join sep (y # ys)"

definition str_iter :: "string \<Rightarrow> string list" where
  "str_iter s = map (\<lambda>c. [c]) s"

text \<open>
  The local variables of \<^verbatim>\<open>generate\<close> that the loop reads and writes.
  \<^verbatim>\<open>sampled_output\<close> is unbound (\<open>None\<close>) until the first assignment to it;
  \<open>draws\<close> counts the calls of \<^verbatim>\<open>np.random.choice\<close>.
\<close>

record gen_state =
  generated_string :: string
  current_symbol :: string
  sampled_output :: "string option"
  draws :: nat

text \<open>
  The body of \<^verbatim>\<open>if sampling_strategy == "uniform":\<close>. It is called on a non-empty
  \<open>prods\<close> only, so the index drawn is in range.
\<close>

definition uniform_branch :: "(nat \<Rightarrow> nat) \<Rightarrow> production list \<Rightarrow> gen_state \<Rightarrow> py_error + gen_state" where
  "uniform_branch rng prods st =
     (case np_random_choice rng (draws st) [0 ..< length prods] of
        Inl e \<Rightarrow> Inl e
      | Inr (production_idx, k1) \<Rightarrow>
          (let production = prods ! production_idx;
               possible_outputs = snd production
           in case np_random_choice_str rng k1 possible_outputs of
                Inl e \<Rightarrow> Inl e
              | Inr (out, k2) \<Rightarrow> Inr (st\<lparr>sampled_output := Some out, draws := k2\<rparr>)))"

text \<open>
  \<^verbatim>\<open>for _ in range(max_length - 1)\<close> with its two \<^verbatim>\<open>break\<close>s; the first argument
  counts the iterations left. There is no branch for \<^verbatim>\<open>"weighted"\<close> in the source, so
  the state passes through unchanged and the next line reads \<^verbatim>\<open>sampled_output\<close> as it is.
\<close>

fun generate_loop :: "cfg \<Rightarrow> (nat \<Rightarrow> nat) \<Rightarrow> string \<Rightarrow> nat \<Rightarrow> gen_state \<Rightarrow> py_error + gen_state" where
  "generate_loop g rng strategy 0 st = Inr st"
| "generate_loop g rng strategy (Suc n) st =
     (case get_productions_for_symbol g (current_symbol st) of
        Inl e \<Rightarrow> Inl e
      | Inr prods \<Rightarrow>
          if length prods = 0 then Inr st
          else
            (case (if strategy = ''uniform'' then uniform_branch rng prods st else Inr st) of
               Inl e \<Rightarrow> Inl e
             | Inr st1 \<Rightarrow>
                 (case sampled_output st1 of
                    None \<Rightarrow> Inl UnboundLocalError
                  | Some out \<Rightarrow>
                      (let st2 = st1\<lparr>generated_string :=
                                       generated_string st1 @ '' '' @ py_join '' '' (str_iter out),
                                     current_symbol := out\<rparr>
                       in if current_symbol st2 \<in> terminal_symbols g then Inr st2
                          else generate_loop g rng strategy n st2))))"

text \<open>
  \<^verbatim>\<open>generate\<close>. \<^verbatim>\<open>sampling_params\<close> is never read and is left out. The result is the
  returned string with the number of random draws the call made.
\<close>

definition generate :: "cfg \<Rightarrow> (nat \<Rightarrow> nat) \<Rightarrow> string \<Rightarrow> int \<Rightarrow> string \<Rightarrow> py_error + (string \<times> nat)" where
  "generate g rng symbol max_length sampling_strategy =
     (if symbol \<notin> nonterminal_symbols g then Inl (AssertionError (NotNonterminal symbol))
      else if sampling_strategy \<notin> set [''uniform'', ''weighted''] then Inl (AssertionError BadStrategy)
      else if \<not> max_length > 0 then Inl (AssertionError BadLength)
      else if max_length = 1 then Inr (symbol, 0)
      else
        (case generate_loop g rng sampling_strategy (nat (max_length - 1))
                \<lparr>generated_string = symbol, current_symbol = symbol,
                 sampled_output = None, draws = 0\<rparr> of
           Inl e \<Rightarrow> Inl e
         | Inr st \<Rightarrow> Inr (generated_string st, draws st)))"

section \<open>Equality and hashing\<close>

text \<open>
  Python values as far as \<^verbatim>\<open>__hash__\<close> and \<^verbatim>\<open>is_valid_production\<close> need them: a
  \<^verbatim>\<open>str\<close>, a \<^verbatim>\<open>list\<close>, a \<^verbatim>\<open>tuple\<close> and a \<^verbatim>\<open>set\<close> of strings. Values built with
  different constructors are different, as \<^verbatim>\<open>"a" == ["a"]\<close> is false in Python, and two
  tuples are equal when their components are.
\<close>

datatype pyval =
    PStr string
  | PList "pyval list"
  | PTuple "pyval list"
  | PSet "string set"

definition production_val :: "production \<Rightarrow> pyval" where
  "production_val p = PTuple [PStr (fst p), PList (map PStr (snd p))]"

text \<open>\<^verbatim>\<open>__eq__\<close>, on two grammars.\<close>

definition CFG_eq :: "cfg \<Rightarrow> cfg \<Rightarrow> bool" where
  "CFG_eq self other =
     (terminal_symbols self = terminal_symbols other
      \<and> nonterminal_symbols self = nonterminal_symbols other
      \<and> productions self = productions other)"

text \<open>
  The built-in \<^verbatim>\<open>hash\<close>: a set and a list are unhashable (\<^verbatim>\<open>TypeError\<close>); a tuple
  hashes its items from left to right and combines their hashes. The hash of a string
  (\<open>hs\<close>, salted per process) and the combination (\<open>ht\<close>) are parameters.
\<close>

fun py_hash :: "(string \<Rightarrow> int) \<Rightarrow> (int list \<Rightarrow> int) \<Rightarrow> pyval \<Rightarrow> py_error + int"
  and py_hash_items :: "(string \<Rightarrow> int) \<Rightarrow> (int list \<Rightarrow> int) \<Rightarrow> pyval list \<Rightarrow> py_error + int list"
where
  "py_hash hs ht (PStr s) = Inr (hs s)"
| "py_hash hs ht (PList xs) = Inl TypeError"
| "py_hash hs ht (PSet S) = Inl TypeError"
| "py_hash hs ht (PTuple xs) =
     (case py_hash_items hs ht xs of Inl e \<Rightarrow> Inl e | Inr hl \<Rightarrow> Inr (ht hl))"
| "py_hash_items hs ht [] = Inr []"
| "py_hash_items hs ht (x # xs) =
     (case py_hash hs ht x of
        Inl e \<Rightarrow> Inl e
      | Inr h \<Rightarrow> (case py_hash_items hs ht xs of Inl e \<Rightarrow> Inl e | Inr hl \<Rightarrow> Inr (h # hl)))"

text \<open>
  \<^verbatim>\<open>__hash__\<close>: \<^verbatim>\<open>hash((self.terminal_symbols, self.nonterminal_symbols, self.productions))\<close>.
\<close>

definition CFG_hash :: "(string \<Rightarrow> int) \<Rightarrow> (int list \<Rightarrow> int) \<Rightarrow> cfg \<Rightarrow> py_error + int" where
  "CFG_hash hs ht g =
     py_hash hs ht (PTuple [PSet (terminal_symbols g), PSet (nonterminal_symbols g),
                            PList (map production_val (productions g))])"

section \<open>Membership queries\<close>

definition is_terminal :: "cfg \<Rightarrow> string \<Rightarrow> bool" where
  "is_terminal g symbol = (symbol \<in> terminal_symbols g)"

definition is_nonterminal :: "cfg \<Rightarrow> string \<Rightarrow> bool" where
  "is_nonterminal g symbol = (symbol \<in> nonterminal_symbols g)"

text \<open>
  \<^verbatim>\<open>is_valid_production\<close>: \<^verbatim>\<open>production in self.productions\<close>, on any Python value;
  the stored productions are tuples of a string and a list of strings.
\<close>

definition is_valid_production :: "cfg \<Rightarrow> pyval \<Rightarrow> bool" where
  "is_valid_production g production = (production \<in> set (map production_val (productions g)))"

text \<open>
  \<^verbatim>\<open>str.split()\<close> without arguments: the maximal runs of non-whitespace characters.
  \<open>py_isspace\<close> lists the code points below 256 for which \<^verbatim>\<open>str.isspace\<close> holds.
\<close>

definition py_isspace :: "char \<Rightarrow> bool" where
  "py_isspace c = ((of_char c :: nat) \<in> set [9, 10, 11, 12, 13, 28, 29, 30, 31, 32, 133, 160])"

fun split_from :: "string \<Rightarrow> string \<Rightarrow> string list" where
  "split_from cur [] = (if cur = [] then [] else [cur])"
| "split_from cur (c # cs) =
     (if py_isspace c then (if cur = [] then split_from [] cs else cur # split_from [] cs)
      else split_from (cur @ [c]) cs)"

definition py_split :: "string \<Rightarrow> string list" where
  "py_split s = split_from [] s"

text \<open>The first loop of \<^verbatim>\<open>is_valid_string\<close>; \<open>False\<close> is the early \<^verbatim>\<open>return False\<close>.\<close>

fun symbols_loop :: "cfg \<Rightarrow> string list \<Rightarrow> bool" where
  "symbols_loop g [] = True"
| "symbols_loop g (symbol # rest) =
     (if symbol \<notin> all_symbols g then False else symbols_loop g rest)"

text \<open>
  The second loop, over the indices \<^verbatim>\<open>range(len(string.split()) - 1)\<close>; the range is
  empty when the string has no token, as \<open>0 - 1 = 0\<close> on \<^typ>\<open>nat\<close>. Both indices read
  are below the number of tokens.
\<close>

fun pairs_loop :: "cfg \<Rightarrow> string list \<Rightarrow> nat list \<Rightarrow> bool" where
  "pairs_loop g toks [] = True"
| "pairs_loop g toks (i # rest) =
     (if \<not> is_valid_production g (PTuple [PStr (toks ! i), PStr (toks ! (i + 1))]) then False
      else pairs_loop g toks rest)"

definition is_valid_string :: "cfg \<Rightarrow> string \<Rightarrow> bool" where
  "is_valid_string g string =
     (if \<not> symbols_loop g (py_split string) then False
      else if \<not> pairs_loop g (py_split string) [0 ..< length (py_split string) - 1] then False
      else True)"

section \<open>Notions used to state the properties\<close>

text \<open>
  Invariants 2 and 3 of the data model for one production: its left-hand side is a
  nonterminal and every symbol of its right-hand side is a terminal or a nonterminal.
\<close>

definition well_formed_production :: "string set \<Rightarrow> string set \<Rightarrow> production \<Rightarrow> bool" where
  "well_formed_production ts ns p = (fst p \<in> ns \<and> set (snd p) \<subseteq> ts \<union> ns)"

text \<open>
  The grammars of the example scenarios, as \<^verbatim>\<open>__init__\<close> builds them:
  \<^verbatim>\<open>CFG({"a"}, {"S"}, [("S", ["a"])])\<close> and \<^verbatim>\<open>CFG(set(), {"S"}, [])\<close>.
\<close>

definition scenario_a :: cfg where
  "scenario_a = \<lparr>terminal_symbols = {''a''}, nonterminal_symbols = {''S''},
                  productions = [(''S'', [''a''])], all_symbols = {''a''} \<union> {''S''}\<rparr>"

definition scenario_no_productions :: cfg where
  "scenario_no_productions = \<lparr>terminal_symbols = {}, nonterminal_symbols = {''S''},
                               productions = [], all_symbols = {} \<union> {''S''}\<rparr>"

text \<open>
  Three further grammars: \<^verbatim>\<open>CFG(set(), {"S"}, [("S", [])])\<close>, whose only production has
  an empty right-hand side; \<^verbatim>\<open>CFG({"ab"}, {"S"}, [("S", ["ab"])])\<close>, with a terminal of
  two characters; and \<^verbatim>\<open>CFG(set(), {"S T"}, [])\<close>, whose nonterminal contains a space.
\<close>

definition empty_rhs_grammar :: cfg where
  "empty_rhs_grammar = \<lparr>terminal_symbols = {}, nonterminal_symbols = {''S''},
                         productions = [(''S'', [])], all_symbols = {} \<union> {''S''}\<rparr>"

definition two_letter_grammar :: cfg where
  "two_letter_grammar = \<lparr>terminal_symbols = {''ab''}, nonterminal_symbols = {''S''},
                          productions = [(''S'', [''ab''])], all_symbols = {''ab''} \<union> {''S''}\<rparr>"



definition nul_grammar :: cfg where
  "nul_grammar = \<lparr>terminal_symbols = {[CHR ''a'', CHR 0x00]}, nonterminal_symbols = {''S''},
                   productions = [(''S'', [[CHR ''a'', CHR 0x00]])],
                   all_symbols = {[CHR ''a'', CHR 0x00]} \<union> {''S''}\<rparr>"


text \<open>
  The symbols a call of \<^verbatim>\<open>generate\<close> visits: the start symbol, then every value
  the loop assigns to \<^verbatim>\<open>current_symbol\<close>, in order. \<open>visited_loop\<close> runs the loop
  of \<open>generate_loop\<close> branch by branch and collects these values; it stops where
  the loop stops, by \<^verbatim>\<open>break\<close>, by exhaustion or by an exception.
\<close>

fun visited_loop :: "cfg \<Rightarrow> (nat \<Rightarrow> nat) \<Rightarrow> string \<Rightarrow> nat \<Rightarrow> gen_state \<Rightarrow> string list" where
  "visited_loop g rng strategy 0 st = []"
| "visited_loop g rng strategy (Suc n) st =
     (case get_productions_for_symbol g (current_symbol st) of
        Inl e \<Rightarrow> []
      | Inr prods \<Rightarrow>
          if length prods = 0 then []
          else
            (case (if strategy = ''uniform'' then uniform_branch rng prods st else Inr st) of
               Inl e \<Rightarrow> []
             | Inr st1 \<Rightarrow>
                 (case sampled_output st1 of
                    None \<Rightarrow> []
                  | Some out \<Rightarrow>
                      (let st2 = st1\<lparr>generated_string :=
                                       generated_string st1 @ '' '' @ py_join '' '' (str_iter out),
                                     current_symbol := out\<rparr>
                       in if current_symbol st2 \<in> terminal_symbols g then [current_symbol st2]
                          else current_symbol st2 # visited_loop g rng strategy n st2))))"

definition symbols_visited :: "cfg \<Rightarrow> (nat \<Rightarrow> nat) \<Rightarrow> string \<Rightarrow> int \<Rightarrow> string \<Rightarrow> string list" where
  "symbols_visited g rng symbol max_length sampling_strategy =
     symbol # visited_loop g rng sampling_strategy (nat (max_length - 1))
                \<lparr>generated_string = symbol, current_symbol = symbol,
                 sampled_output = None, draws = 0\<rparr>"

text \<open>A random source for concrete runs: every draw selects the first element.\<close>

definition always_first :: "nat \<Rightarrow> nat" where
  "always_first k = 0"

section \<open>Construction\<close>

lemma select_productions_filter:
  "select_productions symbol ps = filter (\<lambda>p. fst p = symbol) ps"
  by (induction ps) simp_all

lemma select_productions_subset: "set (select_productions symbol ps) \<subseteq> set ps"
  by (auto simp: select_productions_filter)

lemma validate_rhs_result:
  "validate_rhs g p ss =
     (if set ss \<subseteq> all_symbols g then Inr () else Inl (AssertionError (InvalidRhs p)))"
  by (induction ss) simp_all

lemma validate_productions_ok:
  "(\<forall>p \<in> set ps. fst p \<in> nonterminal_symbols g \<and> set (snd p) \<subseteq> all_symbols g)
   \<Longrightarrow> validate_productions g ps = Inr ()"
  by (induction ps) (simp_all add: validate_rhs_result)

lemma validate_productions_first_bad:
  assumes "\<forall>q \<in> set good. fst q \<in> nonterminal_symbols g \<and> set (snd q) \<subseteq> all_symbols g"
  shows "validate_productions g (good @ p # rest) =
           (if fst p \<notin> nonterminal_symbols g then Inl (AssertionError (InvalidLhs p))
            else if \<not> set (snd p) \<subseteq> all_symbols g then Inl (AssertionError (InvalidRhs p))
            else validate_productions g rest)"
  using assms by (induction good) (simp_all add: validate_rhs_result)

lemma validate_productions_Inr:
  "validate_productions g ps = Inr u \<Longrightarrow>
     \<forall>p \<in> set ps. fst p \<in> nonterminal_symbols g \<and> set (snd p) \<subseteq> all_symbols g"
  by (induction ps) (auto simp: validate_rhs_result split: if_splits sum.splits)

lemma CFG_init_Inr:
  assumes "CFG_init ts ns ps = Inr g"
  shows "g = \<lparr>terminal_symbols = ts, nonterminal_symbols = ns, productions = ps,
              all_symbols = ts \<union> ns\<rparr>"
    and "ts \<inter> ns = {}"
    and "\<forall>p \<in> set ps. fst p \<in> ns \<and> set (snd p) \<subseteq> ts \<union> ns"
proof -
  let ?g = "\<lparr>terminal_symbols = ts, nonterminal_symbols = ns, productions = ps,
             all_symbols = ts \<union> ns\<rparr>"
  from assms have v: "validate ?g = Inr ()" and g: "g = ?g"
    by (auto simp: CFG_init_def Let_def split: sum.splits)
  from v have d: "ts \<inter> ns = {}" and vp: "validate_productions ?g ps = Inr ()"
    by (auto simp: validate_def split: if_splits)
  show "g = ?g" by (rule g)
  show "ts \<inter> ns = {}" by (rule d)
  show "\<forall>p \<in> set ps. fst p \<in> ns \<and> set (snd p) \<subseteq> ts \<union> ns"
    using validate_productions_Inr [OF vp] by simp
qed

text \<open>
  Claim C6, as the code has it. Construction succeeds on every input that satisfies the
  three invariants, and the grammar built has \<open>all_symbols = terminals \<union> nonterminals\<close>.
  It fails with the disjointness assertion on any overlap of the two sets. When the sets
  are disjoint, the productions are checked in list order, the left-hand side of each
  before its right-hand side: construction fails with the left-hand-side assertion when
  the first production that is not well formed has its left-hand side outside the
  nonterminals, and with the right-hand-side assertion when that production has a
  nonterminal left-hand side and a right-hand-side symbol outside the union.
\<close>

theorem CFG_init_cases:
  "(ts \<inter> ns = {} \<and> (\<forall>p \<in> set ps. well_formed_production ts ns p) \<longrightarrow>
      CFG_init ts ns ps = Inr \<lparr>terminal_symbols = ts, nonterminal_symbols = ns,
                               productions = ps, all_symbols = ts \<union> ns\<rparr>)
   \<and> (ts \<inter> ns \<noteq> {} \<longrightarrow> CFG_init ts ns ps = Inl (AssertionError SymbolsNotDisjoint))
   \<and> (ts \<inter> ns = {} \<and> ps = good @ p # rest \<and> (\<forall>q \<in> set good. well_formed_production ts ns q)
        \<and> fst p \<notin> ns \<longrightarrow> CFG_init ts ns ps = Inl (AssertionError (InvalidLhs p)))
   \<and> (ts \<inter> ns = {} \<and> ps = good @ p # rest \<and> (\<forall>q \<in> set good. well_formed_production ts ns q)
        \<and> fst p \<in> ns \<and> \<not> set (snd p) \<subseteq> ts \<union> ns \<longrightarrow>
          CFG_init ts ns ps = Inl (AssertionError (InvalidRhs p)))"
proof (intro conjI impI)
  let ?g = "\<lparr>terminal_symbols = ts, nonterminal_symbols = ns, productions = ps,
             all_symbols = ts \<union> ns\<rparr>"
  show "CFG_init ts ns ps = Inr ?g"
    if "ts \<inter> ns = {} \<and> (\<forall>p \<in> set ps. well_formed_production ts ns p)"
  proof -
    have "validate_productions ?g ps = Inr ()"
      using that by (intro validate_productions_ok) (simp add: well_formed_production_def)
    with that show ?thesis by (simp add: CFG_init_def validate_def)
  qed
  show "CFG_init ts ns ps = Inl (AssertionError SymbolsNotDisjoint)" if "ts \<inter> ns \<noteq> {}"
    using that by (simp add: CFG_init_def validate_def)
  show "CFG_init ts ns ps = Inl (AssertionError (InvalidLhs p))"
    if "ts \<inter> ns = {} \<and> ps = good @ p # rest
        \<and> (\<forall>q \<in> set good. well_formed_production ts ns q) \<and> fst p \<notin> ns"
  proof -
    have "validate_productions ?g (good @ p # rest) = Inl (AssertionError (InvalidLhs p))"
      using that by (subst validate_productions_first_bad) (simp_all add: well_formed_production_def)
    with that show ?thesis by (simp add: CFG_init_def validate_def)
  qed
  show "CFG_init ts ns ps = Inl (AssertionError (InvalidRhs p))"
    if "ts \<inter> ns = {} \<and> ps = good @ p # rest
        \<and> (\<forall>q \<in> set good. well_formed_production ts ns q) \<and> fst p \<in> ns
        \<and> \<not> set (snd p) \<subseteq> ts \<union> ns"
  proof -
    have "validate_productions ?g (good @ p # rest) = Inl (AssertionError (InvalidRhs p))"
      using that by (subst validate_productions_first_bad) (simp_all add: well_formed_production_def)
    with that show ?thesis by (simp add: CFG_init_def validate_def)
  qed
qed

theorem CFG_init_cases_witness:
  "CFG_init {''a''} {''S''} [(''S'', [''a''])] = Inr scenario_a
   \<and> CFG_init {''x''} {''x''} [] = Inl (AssertionError SymbolsNotDisjoint)
   \<and> CFG_init {''a''} {''S''} [(''S'', [''a'']), (''a'', [''S''])]
       = Inl (AssertionError (InvalidLhs (''a'', [''S''])))
   \<and> CFG_init {''a''} {''S''} [(''S'', [''a'']), (''S'', [''b''])]
       = Inl (AssertionError (InvalidRhs (''S'', [''b''])))"
  using CFG_init_cases [of "{''a''}" "{''S''}" "[(''S'', [''a''])]" "[]" "(''S'', [''a''])" "[]"]
    CFG_init_cases [of "{''x''}" "{''x''}" "[]" "[]" "(''S'', [''a''])" "[]"]
    CFG_init_cases [of "{''a''}" "{''S''}" "[(''S'', [''a'']), (''a'', [''S''])]"
                       "[(''S'', [''a''])]" "(''a'', [''S''])" "[]"]
    CFG_init_cases [of "{''a''}" "{''S''}" "[(''S'', [''a'']), (''S'', [''b''])]"
                       "[(''S'', [''a''])]" "(''S'', [''b''])" "[]"]
  by (simp add: well_formed_production_def scenario_a_def)

text \<open>
  The order of the checks decides which assertion fails when several invariants are
  violated: here the second production has a terminal as its left-hand side, and
  construction fails with the right-hand-side assertion of the first production.
\<close>

theorem CFG_init_precedence_counterexample:
  "(''a'', []) \<in> set [(''S'', [''b'']), (''a'', [])] \<and> fst (''a'', [] :: string list) \<notin> {''S''}
   \<and> CFG_init {''a''} {''S''} [(''S'', [''b'']), (''a'', [])]
       = Inl (AssertionError (InvalidRhs (''S'', [''b''])))
   \<and> CFG_init {''a''} {''S''} [(''S'', [''b'']), (''a'', [])]
       \<noteq> Inl (AssertionError (InvalidLhs (''a'', [])))"
  by (simp add: CFG_init_def validate_def)

section \<open>Production lookup\<close>

text \<open>
  Claim C8. For a constructed grammar, \<^verbatim>\<open>get_productions_for_symbol\<close> raises exactly
  when the symbol is not in \<open>all_symbols\<close> (and then it is the assertion on the symbol
  that fails); for a symbol of \<open>all_symbols\<close> it returns the productions with that
  left-hand side in the order of the grammar's production list, and it returns the empty
  list when the symbol is a terminal or has no production.
\<close>

theorem get_productions_for_symbol_spec:
  assumes "CFG_init ts ns ps = Inr g"
  shows "((\<exists>e. get_productions_for_symbol g symbol = Inl e) \<longleftrightarrow> symbol \<notin> all_symbols g)
    \<and> (symbol \<notin> all_symbols g \<longrightarrow>
         get_productions_for_symbol g symbol = Inl (AssertionError (InvalidSymbol symbol)))
    \<and> (symbol \<in> all_symbols g \<longrightarrow>
         get_productions_for_symbol g symbol
           = Inr (filter (\<lambda>p. fst p = symbol) (productions g)))
    \<and> (symbol \<in> terminal_symbols g
         \<or> (symbol \<in> all_symbols g \<and> symbol \<notin> fst ` set (productions g)) \<longrightarrow>
         get_productions_for_symbol g symbol = Inr [])"
proof -
  have g: "terminal_symbols g = ts" "nonterminal_symbols g = ns" "productions g = ps"
    "all_symbols g = ts \<union> ns"
    using CFG_init_Inr(1) [OF assms] by simp_all
  have lhs: "\<forall>p \<in> set ps. fst p \<in> ns" and disj: "ts \<inter> ns = {}"
    using CFG_init_Inr [OF assms] by auto
  have "filter (\<lambda>p. fst p = symbol) ps = []" if "symbol \<in> ts"
    using that lhs disj by (auto simp: filter_empty_conv)
  moreover have "filter (\<lambda>p. fst p = symbol) ps = []" if "symbol \<notin> fst ` set ps"
    using that by (auto simp: filter_empty_conv)
  ultimately show ?thesis
    by (auto simp: get_productions_for_symbol_def select_productions_filter g)
qed

theorem get_productions_for_symbol_spec_witness:
  "CFG_init {''a''} {''S''} [(''S'', [''a''])] = Inr scenario_a
   \<and> get_productions_for_symbol scenario_a ''S'' = Inr [(''S'', [''a''])]
   \<and> get_productions_for_symbol scenario_a ''a'' = Inr []
   \<and> get_productions_for_symbol scenario_a ''b'' = Inl (AssertionError (InvalidSymbol ''b''))"
proof -
  have h: "CFG_init {''a''} {''S''} [(''S'', [''a''])] = Inr scenario_a"
    by (simp add: CFG_init_def validate_def scenario_a_def)
  show ?thesis
    using h get_productions_for_symbol_spec [OF h, of "''S''"]
      get_productions_for_symbol_spec [OF h, of "''a''"]
      get_productions_for_symbol_spec [OF h, of "''b''"]
    by (simp add: scenario_a_def)
qed

section \<open>Generation\<close>

lemmas generate_unfold =
  generate_def get_productions_for_symbol_def uniform_branch_def np_random_choice_def
  np_random_choice_str_def np_str_def str_iter_def eval_nat_numeral

text \<open>
  Claim C9. For a nonterminal start symbol and either sampling strategy,
  \<^verbatim>\<open>generate(start, max_length=1)\<close> returns the start symbol itself, and no random
  draw is made.
\<close>

theorem generate_max_length_1:
  "start \<in> nonterminal_symbols g \<Longrightarrow> strategy \<in> {''uniform'', ''weighted''}
   \<Longrightarrow> generate g rng start 1 strategy = Inr (start, 0)"
  by (auto simp: generate_def)

theorem generate_max_length_1_witness:
  "''S'' \<in> nonterminal_symbols scenario_a \<and> ''uniform'' \<in> {''uniform'', ''weighted''}
   \<and> generate scenario_a always_first ''S'' 1 ''uniform'' = Inr (''S'', 0)"
proof -
  have h: "''S'' \<in> nonterminal_symbols scenario_a" by (simp add: scenario_a_def)
  have s: "''uniform'' \<in> {''uniform'', ''weighted''}" by simp
  show ?thesis using h s generate_max_length_1 [OF h s, of always_first] by simp
qed

text \<open>
  Claim C7. On the grammar with the single production \<open>S \<rightarrow> a\<close>,
  \<^verbatim>\<open>generate("S", max_length=5)\<close> returns \<^verbatim>\<open>"S a"\<close>, which has two tokens, after one
  iteration (two draws), whatever the random source; on the grammar with no production it
  returns \<^verbatim>\<open>"S"\<close> without a draw.
\<close>

theorem generate_scenarios:
  "CFG_init {''a''} {''S''} [(''S'', [''a''])] = Inr scenario_a
   \<and> generate scenario_a rng ''S'' 5 ''uniform'' = Inr (''S a'', 2)
   \<and> py_split ''S a'' = [''S'', ''a'']
   \<and> CFG_init {} {''S''} [] = Inr scenario_no_productions
   \<and> generate scenario_no_productions rng ''S'' 5 ''uniform'' = Inr (''S'', 0)"
  by (simp add: CFG_init_def validate_def scenario_a_def scenario_no_productions_def
      generate_unfold py_split_def py_isspace_def)

text \<open>
  Claim C1 fails on the code. With the strategy \<^verbatim>\<open>"weighted"\<close> the loop reads
  \<^verbatim>\<open>sampled_output\<close> before any assignment to it, and with the strategy
  \<^verbatim>\<open>"uniform"\<close> a production with an empty right-hand side makes
  \<^verbatim>\<open>np.random.choice\<close> raise; both calls satisfy the three preconditions.
\<close>

theorem generate_raises:
  "CFG_init {''a''} {''S''} [(''S'', [''a''])] = Inr scenario_a
   \<and> generate scenario_a rng ''S'' 2 ''weighted'' = Inl UnboundLocalError
   \<and> CFG_init {} {''S''} [(''S'', [])] = Inr empty_rhs_grammar
   \<and> generate empty_rhs_grammar rng ''S'' 2 ''uniform'' = Inl ValueError"
  by (simp add: CFG_init_def validate_def scenario_a_def empty_rhs_grammar_def generate_unfold)

text \<open>
  A third way to raise, through numpy: a symbol that ends in a NUL character comes back
  from \<^verbatim>\<open>np.random.choice\<close> without it, the shortened string is not a symbol of the
  grammar, and the next lookup fails its assertion.
\<close>

lemma generate_raises_nul:
  "CFG_init {[CHR ''a'', CHR 0x00]} {''S''} [(''S'', [[CHR ''a'', CHR 0x00]])] = Inr nul_grammar
   \<and> generate nul_grammar rng ''S'' 3 ''uniform'' = Inl (AssertionError (InvalidSymbol ''a''))"
  by (simp add: CFG_init_def validate_def nul_grammar_def generate_unfold)


lemma uniform_branch_Inr:
  assumes "uniform_branch rng prods st = Inr st1" and "prods \<noteq> []"
  shows "\<exists>p s. p \<in> set prods \<and> s \<in> set (snd p) \<and> sampled_output st1 = Some (np_str s)
           \<and> generated_string st1 = generated_string st
           \<and> current_symbol st1 = current_symbol st"
proof -
  let ?p = "prods ! (rng (draws st) mod length prods)"
  from assms(2) have p: "?p \<in> set prods" by simp
  from assms have ne: "snd ?p \<noteq> []"
    by (auto simp: uniform_branch_def np_random_choice_def np_random_choice_str_def Let_def
        split: if_splits)
  let ?s = "snd ?p ! (rng (Suc (draws st)) mod length (snd ?p))"
  from ne have s: "?s \<in> set (snd ?p)" by simp
  from assms ne
  have "st1 = st\<lparr>sampled_output := Some (np_str ?s), draws := Suc (Suc (draws st))\<rparr>"
    by (simp add: uniform_branch_def np_random_choice_def np_random_choice_str_def Let_def)
  then have "sampled_output st1 = Some (np_str ?s) \<and> generated_string st1 = generated_string st
      \<and> current_symbol st1 = current_symbol st"
    by simp
  with p s show ?thesis by blast
qed

lemma uniform_branch_returns:
  assumes "prods \<noteq> []" and "\<forall>p \<in> set prods. snd p \<noteq> []"
  shows "\<exists>st1. uniform_branch rng prods st = Inr st1"
proof -
  from assms have "snd (prods ! (rng (draws st) mod length prods)) \<noteq> []" by simp
  with assms(1) show ?thesis
    by (simp add: uniform_branch_def np_random_choice_def np_random_choice_str_def Let_def)
qed

text \<open>
  What does hold: with the strategy \<^verbatim>\<open>"uniform"\<close>, on a constructed grammar none of
  whose productions has an empty right-hand side or a right-hand-side symbol ending in a
  NUL character, \<^verbatim>\<open>generate\<close> returns a string for every random source.
\<close>

lemma generate_loop_uniform_returns:
  assumes sym: "\<forall>p \<in> set (productions g). \<forall>s \<in> set (snd p). np_str s \<in> all_symbols g"
    and ne: "\<forall>p \<in> set (productions g). snd p \<noteq> []"
  shows "current_symbol st \<in> all_symbols g
     \<Longrightarrow> \<exists>st'. generate_loop g rng ''uniform'' n st = Inr st'"
proof (induction n arbitrary: st)
  case 0
  then show ?case by simp
next
  case (Suc n)
  let ?prods = "select_productions (current_symbol st) (productions g)"
  show ?case
  proof (cases "?prods = []")
    case True
    with Suc.prems show ?thesis by (simp add: get_productions_for_symbol_def)
  next
    case False
    have sub: "set ?prods \<subseteq> set (productions g)" by (rule select_productions_subset)
    with ne have "\<forall>p \<in> set ?prods. snd p \<noteq> []" by blast
    from uniform_branch_returns [OF False this]
    obtain st1 where br: "uniform_branch rng ?prods st = Inr st1" by blast
    from uniform_branch_Inr [OF br False] obtain p s
      where "p \<in> set ?prods" "s \<in> set (snd p)" and out: "sampled_output st1 = Some (np_str s)"
      by blast
    with sub sym have mem: "np_str s \<in> all_symbols g" by blast
    let ?st2 = "st1\<lparr>generated_string :=
                      generated_string st1 @ '' '' @ py_join '' '' (str_iter (np_str s)),
                    current_symbol := np_str s\<rparr>"
    have "current_symbol ?st2 \<in> all_symbols g" using mem by simp
    from Suc.IH [OF this] obtain st' where "generate_loop g rng ''uniform'' n ?st2 = Inr st'" ..
    with Suc.prems False br out show ?thesis
      by (simp add: get_productions_for_symbol_def Let_def)
  qed
qed

lemma generate_uniform_returns:
  assumes "CFG_init ts ns ps = Inr g"
    and "\<forall>p \<in> set ps. snd p \<noteq> []"
    and "\<forall>p \<in> set ps. \<forall>s \<in> set (snd p). np_str s = s"
    and "symbol \<in> ns" and "0 < max_length"
  shows "\<exists>out d. generate g rng symbol max_length ''uniform'' = Inr (out, d)"
proof -
  have g: "nonterminal_symbols g = ns" "productions g = ps" "all_symbols g = ts \<union> ns"
    using CFG_init_Inr(1) [OF assms(1)] by simp_all
  have "\<forall>p \<in> set ps. \<forall>s \<in> set (snd p). s \<in> ts \<union> ns"
    using CFG_init_Inr(3) [OF assms(1)] by blast
  with assms(3) have sym: "\<forall>p \<in> set (productions g). \<forall>s \<in> set (snd p). np_str s \<in> all_symbols g"
    by (simp add: g)
  have ne: "\<forall>p \<in> set (productions g). snd p \<noteq> []"
    using assms(2) by (simp add: g)
  let ?st = "\<lparr>generated_string = symbol, current_symbol = symbol,
              sampled_output = None, draws = 0\<rparr>"
  have "current_symbol ?st \<in> all_symbols g" using assms(4) by (simp add: g)
  from generate_loop_uniform_returns [OF sym ne this]
  obtain st' where "generate_loop g rng ''uniform'' (nat (max_length - 1)) ?st = Inr st'" ..
  with assms(4,5) show ?thesis by (simp add: generate_def g)
qed

text \<open>
  Claim C3 fails on the code. The start symbol is appended whole, but every later symbol
  goes through \<^verbatim>\<open>" ".join\<close>, which separates its characters: the symbols visited
  are \<^verbatim>\<open>S\<close> and \<^verbatim>\<open>ab\<close>, and the string returned is \<^verbatim>\<open>"S a b"\<close>.
\<close>

theorem generate_splits_symbol:
  "CFG_init {''ab''} {''S''} [(''S'', [''ab''])] = Inr two_letter_grammar
   \<and> generate two_letter_grammar rng ''S'' 5 ''uniform'' = Inr (''S a b'', 2)
   \<and> ''S a b'' \<noteq> py_join '' '' [''S'', ''ab'']"
  by (simp add: CFG_init_def validate_def two_letter_grammar_def generate_unfold)

text \<open>
  The visited symbols and the string built: the loop appends, for every symbol it visits,
  a space and the symbol's characters joined by spaces; and it visits at most one symbol
  per iteration.
\<close>

lemma uniform_branch_generated_string:
  "uniform_branch rng prods st = Inr st1 \<Longrightarrow> generated_string st1 = generated_string st"
  by (auto simp: uniform_branch_def np_random_choice_def np_random_choice_str_def Let_def
      split: if_splits)

lemma generate_loop_trace:
  "generate_loop g rng strategy n st = Inr st'
   \<Longrightarrow> generated_string st' =
         generated_string st
           @ concat (map (\<lambda>x. '' '' @ py_join '' '' (str_iter x)) (visited_loop g rng strategy n st))"
proof (induction n arbitrary: st)
  case 0
  then show ?case by simp
next
  case (Suc n)
  show ?case
  proof (cases "get_productions_for_symbol g (current_symbol st)")
    case (Inl e)
    with Suc.prems show ?thesis by simp
  next
    case (Inr prods)
    show ?thesis
    proof (cases "length prods = 0")
      case True
      with Suc.prems Inr show ?thesis by simp
    next
      case False
      let ?br = "if strategy = ''uniform'' then uniform_branch rng prods st else Inr st"
      from Suc.prems Inr False obtain st1 where br: "?br = Inr st1"
        by (cases ?br) simp_all
      from Suc.prems Inr False br obtain out where out: "sampled_output st1 = Some out"
        by (cases "sampled_output st1") simp_all
      from br have gs: "generated_string st1 = generated_string st"
        by (auto dest: uniform_branch_generated_string split: if_splits)
      let ?st2 = "st1\<lparr>generated_string :=
                        generated_string st1 @ '' '' @ py_join '' '' (str_iter out),
                      current_symbol := out\<rparr>"
      show ?thesis
      proof (cases "out \<in> terminal_symbols g")
        case True
        with Suc.prems Inr False br out have "st' = ?st2" by (simp add: Let_def)
        with Inr False br out True gs show ?thesis by (simp add: Let_def)
      next
        case notin: False
        with Suc.prems Inr False br out
        have "generate_loop g rng strategy n ?st2 = Inr st'" by (simp add: Let_def)
        from Suc.IH [OF this] Inr False br out notin gs show ?thesis by (simp add: Let_def)
      qed
    qed
  qed
qed


lemma visited_loop_symbols:
  assumes rhs: "\<forall>p \<in> set (productions g). \<forall>s \<in> set (snd p). P (np_str s)"
  shows "(\<forall>y. sampled_output st = Some y \<longrightarrow> P y)
     \<Longrightarrow> x \<in> set (visited_loop g rng strategy n st) \<Longrightarrow> P x"
proof (induction n arbitrary: st)
  case 0
  then show ?case by simp
next
  case (Suc n)
  let ?prods = "select_productions (current_symbol st) (productions g)"
  let ?br = "if strategy = ''uniform'' then uniform_branch rng ?prods st else Inr st"
  from Suc.prems(2) have cur: "current_symbol st \<in> all_symbols g" and ne: "?prods \<noteq> []"
    by (auto simp: get_productions_for_symbol_def split: if_splits)
  from Suc.prems(2) cur ne obtain st1 where br: "?br = Inr st1"
    by (cases ?br) (simp_all add: get_productions_for_symbol_def)
  from Suc.prems(2) cur ne br obtain out where out: "sampled_output st1 = Some out"
    by (cases "sampled_output st1") (simp_all add: get_productions_for_symbol_def)
  have P: "P out"
  proof (cases "strategy = ''uniform''")
    case True
    with br have "uniform_branch rng ?prods st = Inr st1" by simp
    from uniform_branch_Inr [OF this ne] out obtain p s
      where "p \<in> set ?prods" "s \<in> set (snd p)" "out = np_str s"
      by auto
    with rhs select_productions_subset show ?thesis by blast
  next
    case False
    with br have "st1 = st" by simp
    with out Suc.prems(1) show ?thesis by simp
  qed
  let ?st2 = "st1\<lparr>generated_string := generated_string st1 @ '' '' @ py_join '' '' (str_iter out),
                   current_symbol := out\<rparr>"
  from Suc.prems(2) cur ne br out
  have "x = out \<or> x \<in> set (visited_loop g rng strategy n ?st2)"
    by (auto simp: get_productions_for_symbol_def Let_def split: if_splits)
  then show ?case
  proof
    assume "x = out"
    with P show ?thesis by simp
  next
    assume x: "x \<in> set (visited_loop g rng strategy n ?st2)"
    have "\<forall>y. sampled_output ?st2 = Some y \<longrightarrow> P y" using out P by simp
    from Suc.IH [OF this x] show ?thesis .
  qed
qed










text \<open>
  The returned string has this form on every constructed grammar whose right-hand-side
  symbols have at most one character, so the bound holds for all of them that are free of
  whitespace, whatever the length of the start symbol.
\<close>

lemma py_join_Cons:
  "py_join '' '' (x # xs) = x @ concat (map (\<lambda>y. '' '' @ y) xs)"
  by (induction xs arbitrary: x) simp_all

lemma py_join_str_iter_short: "length s \<le> 1 \<Longrightarrow> py_join '' '' (str_iter s) = s"
  by (cases s) (simp_all add: str_iter_def)

lemma length_np_str: "length (np_str s) \<le> length s"
  by (simp add: np_str_def) (metis length_dropWhile_le length_rev)

lemma generate_joins_short_symbols:
  assumes "CFG_init ts ns ps = Inr g"
    and "\<forall>p \<in> set ps. \<forall>s \<in> set (snd p). length s \<le> 1"
    and "generate g rng symbol max_length strategy = Inr (out, d)"
  shows "out = py_join '' '' (symbols_visited g rng symbol max_length strategy)"
proof -
  have g: "productions g = ps"
    using CFG_init_Inr(1) [OF assms(1)] by simp
  let ?st = "\<lparr>generated_string = symbol, current_symbol = symbol,
              sampled_output = None, draws = 0\<rparr>"
  let ?vs = "visited_loop g rng strategy (nat (max_length - 1)) ?st"
  have rhs: "\<forall>p \<in> set (productions g). \<forall>s \<in> set (snd p). length (np_str s) \<le> 1"
    using assms(2) length_np_str by (fastforce simp: g intro: order_trans)
  have short: "length x \<le> 1" if "x \<in> set ?vs" for x
    by (rule visited_loop_symbols [where P = "\<lambda>x. length x \<le> 1", OF rhs _ that]) simp
  have unchanged: "py_join '' '' (str_iter x) = x" if "x \<in> set ?vs" for x
    using short [OF that] by (rule py_join_str_iter_short)
  have same: "concat (map (\<lambda>x. '' '' @ py_join '' '' (str_iter x)) ?vs)
      = concat (map (\<lambda>x. '' '' @ x) ?vs)"
    by (rule arg_cong [where f = concat], rule map_cong) (simp_all add: unchanged)
  show ?thesis
  proof (cases "max_length = 1")
    case True
    with assms(3) show ?thesis
      by (auto simp: generate_def symbols_visited_def split: if_splits)
  next
    case False
    with assms(3) obtain st'
      where loop: "generate_loop g rng strategy (nat (max_length - 1)) ?st = Inr st'"
        and out: "out = generated_string st'"
      by (auto simp: generate_def split: if_splits sum.splits)
    from generate_loop_trace [OF loop] out
    have "out = symbol @ concat (map (\<lambda>x. '' '' @ py_join '' '' (str_iter x)) ?vs)"
      by simp
    then show ?thesis
      unfolding same symbols_visited_def py_join_Cons .
  qed
qed


text \<open>
  With a symbol of two characters the bound breaks through the join as well: the call
  with \<^verbatim>\<open>max_length=2\<close> returns three tokens.
\<close>

lemma generate_tokens_two_letter:
  "generate two_letter_grammar rng ''S'' 2 ''uniform'' = Inr (''S a b'', 2)
   \<and> py_split ''S a b'' = [''S'', ''a'', ''b'']"
  by (simp add: two_letter_grammar_def generate_unfold py_split_def py_isspace_def)

section \<open>Equality and hashing\<close>

lemma CFG_hash_TypeError: "CFG_hash hs ht g = Inl TypeError"
  by (simp add: CFG_hash_def)

lemma CFG_eq_iff:
  "CFG_eq g h \<longleftrightarrow>
     (terminal_symbols g, nonterminal_symbols g, productions g)
       = (terminal_symbols h, nonterminal_symbols h, productions h)"
  by (simp add: CFG_eq_def)

lemma CFG_eq_constructed:
  assumes "CFG_init ts ns ps = Inr g" and "CFG_init ts' ns' ps' = Inr h"
  shows "CFG_eq g h \<longleftrightarrow> g = h"
  using CFG_init_Inr(1) [OF assms(1)] CFG_init_Inr(1) [OF assms(2)]
  by (auto simp: CFG_eq_def)

text \<open>
  Claim C5 fails on the code. Equality compares the three attributes, but
  \<^verbatim>\<open>__hash__\<close> hashes a tuple whose first component is a set, which is unhashable:
  hashing a constructed grammar raises \<^verbatim>\<open>TypeError\<close>.
\<close>

theorem CFG_hash_raises:
  "CFG_init {''a''} {''S''} [(''S'', [''a''])] = Inr scenario_a
   \<and> CFG_eq scenario_a scenario_a
   \<and> CFG_hash hs ht scenario_a = Inl TypeError"
  by (simp add: CFG_init_def validate_def scenario_a_def CFG_eq_def CFG_hash_def)

section \<open>Membership queries\<close>

lemma is_valid_production_pair: "is_valid_production g (PTuple [PStr x, PStr y]) = False"
  by (auto simp: is_valid_production_def production_val_def)

lemma pairs_loop_Cons: "pairs_loop g toks (i # rest) = False"
  by (simp add: is_valid_production_pair)

text \<open>
  Claim C10. A pair of two strings is never equal to a stored production, whose second
  component is a list, so \<^verbatim>\<open>is_valid_production\<close> is false on every such pair, and
  \<^verbatim>\<open>is_valid_string\<close> is false on every string of two or more tokens.
\<close>

theorem pair_never_valid:
  "is_valid_production g (PTuple [PStr x, PStr y]) = False
   \<and> (2 \<le> length (py_split s) \<longrightarrow> is_valid_string g s = False)"
proof (intro conjI impI)
  show "is_valid_production g (PTuple [PStr x, PStr y]) = False"
    by (rule is_valid_production_pair)
  assume "2 \<le> length (py_split s)"
  then have "[0 ..< length (py_split s) - 1] = 0 # [1 ..< length (py_split s) - 1]"
    by (simp add: upt_rec)
  then have "pairs_loop g (py_split s) [0 ..< length (py_split s) - 1] = False"
    by (simp only: pairs_loop_Cons)
  then show "is_valid_string g s = False"
    by (simp add: is_valid_string_def)
qed

theorem pair_never_valid_witness:
  "2 \<le> length (py_split ''S a S'') \<and> symbols_loop scenario_a (py_split ''S a S'')
   \<and> is_valid_string scenario_a ''S a S'' = False"
  using pair_never_valid [of scenario_a "''S''" "''a''" "''S a S''"]
  by (simp add: py_split_def py_isspace_def scenario_a_def)

text \<open>
  Claim C2 fails on the code in its first half: \<^verbatim>\<open>"S a"\<close> has the two tokens
  \<^verbatim>\<open>S\<close> and \<^verbatim>\<open>a\<close>, both symbols of the grammar, and \<^verbatim>\<open>is_valid_string\<close>
  returns false on it; on \<^verbatim>\<open>"S b"\<close> it returns false as the claim says.
\<close>

theorem is_valid_string_S_a:
  "CFG_init {''a''} {''S''} [(''S'', [''a''])] = Inr scenario_a
   \<and> py_split ''S a'' = [''S'', ''a'']
   \<and> is_valid_string scenario_a ''S a'' = False
   \<and> is_valid_string scenario_a ''S b'' = False"
  by (simp add: CFG_init_def validate_def scenario_a_def is_valid_string_def py_split_def
      py_isspace_def is_valid_production_def production_val_def)

end
